theory Spec2Isabelle
  imports Complex_Main
begin

section \<open>The OpenRouter chat-completion client (src/tools/openrouter_config.py)\<close>

text \<open>
  The module reads its configuration from the environment, sends one HTTP POST per
  attempt, and extracts \<^verbatim>\<open>choices[0].message.content\<close> from the answer. The
  embedding makes the effects explicit: the network is an oracle (\<open>transport\<close>) that is
  asked once per \<^verbatim>\<open>requests.post\<close>, the requests sent and the log records written
  are accumulated in a \<open>world\<close> value that every function takes and returns, and a
  Python exception is the \<open>Inl\<close> branch of a sum.
\<close>

subsection \<open>Python values and exceptions\<close>

text \<open>
  The values that \<^verbatim>\<open>response.json()\<close> can produce, which are also the values the
  caller passes as \<^verbatim>\<open>messages\<close>. \<open>PNone\<close> is Python's \<^verbatim>\<open>None\<close>: JSON
  \<^verbatim>\<open>null\<close> decodes to it, and it is the "no result" sentinel of both functions.
  A dictionary is its list of items; JSON object keys are strings.
\<close>

datatype pyval =
    PNone
  | PBool bool
  | PInt int
  | PFloat real
  | PStr string
  | PList "pyval list"
  | PDict "(string \<times> pyval) list"

text \<open>
  What a \<^verbatim>\<open>raise\<close> can carry. \<open>RequestException c m\<close> stands for an exception of
  class \<open>c\<close> with message \<open>m\<close> raised inside the HTTP library. The last two classes
  derive from \<^verbatim>\<open>BaseException\<close> only.
\<close>

datatype exn =
    KeyError pyval
  | IndexError
  | TypeError
  | ValueError string
  | RecursionError
  | RequestException string string
  | KeyboardInterrupt
  | SystemExit

text \<open>
  \<^verbatim>\<open>isinstance(e, Exception)\<close>: what the two \<^verbatim>\<open>except Exception\<close> clauses and the
  decorator (whose exception argument is \<^verbatim>\<open>Exception\<close>) catch.
\<close>

fun is_Exception :: "exn \<Rightarrow> bool" where
  "is_Exception KeyboardInterrupt = False"
| "is_Exception SystemExit = False"
| "is_Exception _ = True"

text \<open>\<^verbatim>\<open>obj[key]\<close> for a string key.\<close>

fun getitem_str :: "pyval \<Rightarrow> string \<Rightarrow> exn + pyval" where
  "getitem_str (PDict kvs) k =
     (case map_of kvs k of None \<Rightarrow> Inl (KeyError (PStr k)) | Some v \<Rightarrow> Inr v)"
| "getitem_str _ k = Inl TypeError"

text \<open>
  \<^verbatim>\<open>obj[i]\<close> for an integer index: lists and strings count negative indices from the
  end and raise IndexError out of range; a dictionary decoded from JSON has no integer
  key; nothing else is subscriptable.
\<close>

definition index_seq :: "'a list \<Rightarrow> int \<Rightarrow> exn + 'a" where
  "index_seq xs i =
     (if 0 \<le> i \<and> i < int (length xs) then Inr (xs ! nat i)
      else if i < 0 \<and> - int (length xs) \<le> i then Inr (xs ! nat (int (length xs) + i))
      else Inl IndexError)"

fun getitem_int :: "pyval \<Rightarrow> int \<Rightarrow> exn + pyval" where
  "getitem_int (PList xs) i = index_seq xs i"
| "getitem_int (PStr s) i =
     (case index_seq s i of Inl e \<Rightarrow> Inl e | Inr c \<Rightarrow> Inr (PStr [c]))"
| "getitem_int (PDict kvs) i = Inl (KeyError (PInt i))"
| "getitem_int _ i = Inl TypeError"

text \<open>\<^verbatim>\<open>len(obj)\<close>.\<close>

fun py_len :: "pyval \<Rightarrow> exn + nat" where
  "py_len (PStr s) = Inr (length s)"
| "py_len (PList xs) = Inr (length xs)"
| "py_len (PDict kvs) = Inr (length kvs)"
| "py_len _ = Inl TypeError"

text \<open>
  \<^verbatim>\<open>obj[:n]\<close>. A dictionary rejects a slice as a key (TypeError before Python 3.12,
  KeyError from 3.12 on; the handler that catches it does not tell them apart).
\<close>

fun slice_to :: "pyval \<Rightarrow> nat \<Rightarrow> exn + pyval" where
  "slice_to (PStr s) n = Inr (PStr (take n s))"
| "slice_to (PList xs) n = Inr (PList (take n xs))"
| "slice_to _ n = Inl TypeError"

subsection \<open>Requests, responses and the world\<close>

record payload =
  model :: string
  messages :: pyval
  temperature :: real

record request =
  url :: string
  headers :: "(string \<times> string) list"
  json_payload :: payload

text \<open>
  What the code reads from a \<^verbatim>\<open>requests.Response\<close>: \<^verbatim>\<open>status_code\<close>,
  \<^verbatim>\<open>text\<close>, and the result of \<^verbatim>\<open>json()\<close>, which raises on a body that is not
  JSON.
\<close>

record response =
  status_code :: int
  text_body :: string
  json :: "exn + pyval"

datatype outcome = Raises exn | Responds response

datatype level = DEBUG | INFO | WARNING | ERROR

text \<open>One constructor per logging call of the module, in source order.\<close>

datatype event =
    EnvLoaded
  | EnvFileMissing
  | ApiKeyMissing
  | ConfigInitialised
  | Calling
  | RequestContent string
  | CallSucceeded
  | CallFailed int string
  | CallException exn
  | EmptyResponse
  | GotResponse
  | ResponseContent string
  | CompletionError exn

record world =
  sent :: "request list"
  log_records :: "(level \<times> event) list"

text \<open>
  The surroundings of a call: \<open>transport n req\<close> is what \<^verbatim>\<open>requests.post\<close> does
  when it is invoked for the \<open>n\<close>-th time (counting from 0) with request \<open>req\<close>;
  \<open>elapsed_at k\<close> is the wall-clock time, in seconds since the retry loop started, read at
  the start of attempt \<open>k\<close> (counting from 1); \<open>py_str\<close> is Python's \<^verbatim>\<open>str()\<close> on a
  value that is not a string, which can raise (RecursionError on deep nesting, ValueError
  on an integer beyond the digit limit of the conversion).
\<close>

record env =
  transport :: "nat \<Rightarrow> request \<Rightarrow> outcome"
  elapsed_at :: "nat \<Rightarrow> real"
  py_str :: "pyval \<Rightarrow> exn + string"

definition logger_log :: "level \<Rightarrow> event \<Rightarrow> world \<Rightarrow> world" where
  "logger_log l ev w = w\<lparr>log_records := log_records w @ [(l, ev)]\<rparr>"

text \<open>\<^verbatim>\<open>str(v)\<close>, also what an f-string does with \<^verbatim>\<open>{v}\<close>: a string is itself.\<close>

definition str_of :: "env \<Rightarrow> pyval \<Rightarrow> exn + string" where
  "str_of E v = (case v of PStr s \<Rightarrow> Inr s | _ \<Rightarrow> py_str E v)"

definition requests_post :: "env \<Rightarrow> request \<Rightarrow> world \<Rightarrow> outcome \<times> world" where
  "requests_post E req w = (transport E (length (sent w)) req, w\<lparr>sent := sent w @ [req]\<rparr>)"

subsection \<open>Configuration (lines 73--93)\<close>

record config =
  api_key :: string
  default_model :: string

text \<open>
  \<^verbatim>\<open>load_dotenv(env_path, override=True)\<close> when the file exists: the file's
  variables replace those of the process environment.
\<close>

definition load_env :: "(string \<rightharpoonup> string) \<Rightarrow> (string \<rightharpoonup> string) option \<Rightarrow> (string \<rightharpoonup> string)" where
  "load_env environ dotenv = (case dotenv of None \<Rightarrow> environ | Some f \<Rightarrow> environ ++ f)"

definition getenv_default :: "(string \<rightharpoonup> string) \<Rightarrow> string \<Rightarrow> string \<Rightarrow> string" where
  "getenv_default environ k d = (case environ k of None \<Rightarrow> d | Some v \<Rightarrow> v)"

text \<open>
  The module-level statements that load and check the configuration. \<open>dotenv\<close> is the
  content of the \<^verbatim>\<open>.env\<close> file, \<open>None\<close> when there is no such file.
\<close>

definition initialize :: "(string \<rightharpoonup> string) \<Rightarrow> (string \<rightharpoonup> string) option \<Rightarrow> world \<Rightarrow> (exn + config) \<times> world" where
  "initialize environ dotenv w =
     (let w1 = (case dotenv of
                  Some f \<Rightarrow> logger_log INFO EnvLoaded w
                | None \<Rightarrow> logger_log WARNING EnvFileMissing w);
          environ1 = load_env environ dotenv;
          key = environ1 ''OPENROUTER_API_KEY'';
          dm = getenv_default environ1 ''OPENROUTER_MODEL'' ''deepseek/deepseek-chat''
      in case key of
           None \<Rightarrow>
             (Inl (ValueError ''OPENROUTER_API_KEY not found in environment variables''),
              logger_log ERROR ApiKeyMissing w1)
         | Some k \<Rightarrow>
             if k = [] then
               (Inl (ValueError ''OPENROUTER_API_KEY not found in environment variables''),
                logger_log ERROR ApiKeyMissing w1)
             else
               (Inr \<lparr>api_key = k, default_model = dm\<rparr>,
                logger_log INFO ConfigInitialised w1))"

subsection \<open>call_openrouter_api (lines 95--124)\<close>

text \<open>\<^verbatim>\<open>model or default_model\<close>: Python's \<^verbatim>\<open>or\<close> yields its left operand when that
  is truthy; \<^verbatim>\<open>None\<close> and the empty string are falsy.\<close>

definition model_or :: "string option \<Rightarrow> string \<Rightarrow> string" where
  "model_or mdl dm = (case mdl of None \<Rightarrow> dm | Some m \<Rightarrow> if m = [] then dm else m)"

text \<open>The log line of a long text: its first 500 characters followed by an ellipsis.\<close>

definition preview :: "string \<Rightarrow> string" where
  "preview s = (if length s > 500 then take 500 s @ ''...'' else s)"

text \<open>The URL, the headers and the payload that the function builds (lines 97--106).\<close>

definition make_request :: "config \<Rightarrow> pyval \<Rightarrow> string option \<Rightarrow> real \<Rightarrow> request" where
  "make_request cfg msgs mdl temp =
     \<lparr>url = ''https://openrouter.ai/api/v1/chat/completions'',
      headers = [(''Authorization'', ''Bearer '' @ api_key cfg)],
      json_payload = \<lparr>model = model_or mdl (default_model cfg),
                      messages = msgs,
                      temperature = temp\<rparr>\<rparr>"

text \<open>
  The handler of lines 122--124: an instance of \<^verbatim>\<open>Exception\<close> is logged and raised
  again; anything else passes the \<^verbatim>\<open>except\<close> clause untouched.
\<close>

definition log_and_reraise :: "exn \<Rightarrow> world \<Rightarrow> (exn + pyval) \<times> world" where
  "log_and_reraise e w =
     (if is_Exception e then (Inl e, logger_log ERROR (CallException e) w) else (Inl e, w))"

text \<open>
  The two log calls, the POST and the status check all sit inside the \<^verbatim>\<open>try\<close>. The
  second log call renders \<^verbatim>\<open>str(messages)\<close> before the request is sent; when that
  raises, no request is made.
\<close>

definition call_openrouter_api ::
  "config \<Rightarrow> env \<Rightarrow> pyval \<Rightarrow> string option \<Rightarrow> real \<Rightarrow> world \<Rightarrow> (exn + pyval) \<times> world" where
  "call_openrouter_api cfg E msgs mdl temp w =
     (let req = make_request cfg msgs mdl temp;
          w1 = logger_log INFO Calling w
      in case str_of E msgs of
           Inl e \<Rightarrow> log_and_reraise e w1
         | Inr s \<Rightarrow>
             (let w2 = logger_log INFO (RequestContent (preview s)) w1;
                  (out, w3) = requests_post E req w2
              in case out of
                   Raises e \<Rightarrow> log_and_reraise e w3
                 | Responds r \<Rightarrow>
                     if status_code r = 200 then
                       (case json r of
                          Inl e \<Rightarrow> log_and_reraise e w3
                        | Inr data \<Rightarrow> (Inr data, logger_log INFO CallSucceeded w3))
                     else
                       (Inr PNone,
                        logger_log ERROR (CallFailed (status_code r) (text_body r)) w3)))"

subsection \<open>get_chat_completion (lines 126--154)\<close>

text \<open>\<^verbatim>\<open>response["choices"][0]["message"]["content"]\<close>, left to right.\<close>

definition extract_content :: "pyval \<Rightarrow> exn + pyval" where
  "extract_content resp =
     (case getitem_str resp ''choices'' of
        Inl e \<Rightarrow> Inl e
      | Inr choices \<Rightarrow>
          (case getitem_int choices 0 of
             Inl e \<Rightarrow> Inl e
           | Inr choice \<Rightarrow>
               (case getitem_str choice ''message'' of
                  Inl e \<Rightarrow> Inl e
                | Inr msg \<Rightarrow> getitem_str msg ''content'')))"

text \<open>
  The argument of the debug log call (lines 147--148): \<^verbatim>\<open>len(content)\<close> is evaluated
  first, then one of the two formatted strings.
\<close>

definition content_preview :: "env \<Rightarrow> pyval \<Rightarrow> exn + string" where
  "content_preview E content =
     (case py_len content of
        Inl e \<Rightarrow> Inl e
      | Inr n \<Rightarrow>
          if n > 500 then
            (case slice_to content 500 of
               Inl e \<Rightarrow> Inl e
             | Inr c \<Rightarrow>
                 (case str_of E c of Inl e \<Rightarrow> Inl e | Inr t \<Rightarrow> Inr (t @ ''...'')))
          else str_of E content)"

text \<open>
  The handler of lines 152--154: an instance of \<^verbatim>\<open>Exception\<close> is logged and
  \<^verbatim>\<open>None\<close> is returned; anything else passes the \<^verbatim>\<open>except\<close> clause.
\<close>

definition log_and_return_none :: "exn \<Rightarrow> world \<Rightarrow> (exn + pyval) \<times> world" where
  "log_and_return_none e w =
     (if is_Exception e then (Inr PNone, logger_log ERROR (CompletionError e) w) else (Inl e, w))"

text \<open>The function body, without its decorator: one attempt.\<close>

definition get_chat_completion_body ::
  "config \<Rightarrow> env \<Rightarrow> pyval \<Rightarrow> string option \<Rightarrow> real \<Rightarrow> world \<Rightarrow> (exn + pyval) \<times> world" where
  "get_chat_completion_body cfg E msgs mdl temp w =
     (case call_openrouter_api cfg E msgs mdl temp w of
        (Inl e, w1) \<Rightarrow> log_and_return_none e w1
      | (Inr resp, w1) \<Rightarrow>
          if resp = PNone then (Inr PNone, logger_log ERROR EmptyResponse w1)
          else
            (case extract_content resp of
               Inl e \<Rightarrow> log_and_return_none e w1
             | Inr content \<Rightarrow>
                 (let w2 = logger_log INFO GotResponse w1
                  in case content_preview E content of
                       Inl e \<Rightarrow> log_and_return_none e w2
                     | Inr s \<Rightarrow> (Inr content, logger_log DEBUG (ResponseContent s) w2))))"

text \<open>
  Modelled from the spec: the decorator \<^verbatim>\<open>backoff.on_exception\<close> belongs to a
  library that is not part of the repository. The spec gives its policy: an exception of
  the target (an instance of \<^verbatim>\<open>Exception\<close>, the class the decorator is given; any
  other passes through at once) is retried, at most \<open>max_tries\<close> attempts are made in total and no new
  attempt is started once \<open>max_time\<close> has elapsed, whichever limit hits first; a target
  that returns ends the loop with its value, and the last exception is re-raised when
  the budget is used up. The waiting between attempts shows only in the clock.
  The loop has no bound of its own when \<open>max_tries\<close> is 0, so not returning is the value
  \<open>None\<close>.
\<close>

partial_function (option) retry_exception ::
  "nat \<Rightarrow> real \<Rightarrow> (nat \<Rightarrow> real) \<Rightarrow> (world \<Rightarrow> (exn + pyval) \<times> world) \<Rightarrow> nat \<Rightarrow> world
     \<Rightarrow> ((exn + pyval) \<times> world) option" where
  "retry_exception max_tries max_time clock target tries w =
     (case target w of
        (Inr ret, w1) \<Rightarrow> Some (Inr ret, w1)
      | (Inl e, w1) \<Rightarrow>
          if is_Exception e then
            (if tries + 1 = max_tries \<or> clock (tries + 1) \<ge> max_time then Some (Inl e, w1)
             else retry_exception max_tries max_time clock target (tries + 1) w1)
          else Some (Inl e, w1))"

definition on_exception ::
  "nat \<Rightarrow> real \<Rightarrow> (nat \<Rightarrow> real) \<Rightarrow> (world \<Rightarrow> (exn + pyval) \<times> world) \<Rightarrow> world
     \<Rightarrow> ((exn + pyval) \<times> world) option" where
  "on_exception max_tries max_time clock target w =
     retry_exception max_tries max_time clock target 0 w"

text \<open>The decorated function, as its callers see it.\<close>

definition get_chat_completion ::
  "config \<Rightarrow> env \<Rightarrow> pyval \<Rightarrow> string option \<Rightarrow> real \<Rightarrow> world \<Rightarrow> ((exn + pyval) \<times> world) option" where
  "get_chat_completion cfg E msgs mdl temp w =
     on_exception 5 300 (elapsed_at E) (get_chat_completion_body cfg E msgs mdl temp) w"

subsection \<open>Sample runs\<close>

text \<open>Concrete surroundings on which the theorems below are instantiated.\<close>

definition sample_config :: config where
  "sample_config = \<lparr>api_key = ''sk-test'', default_model = ''deepseek/deepseek-chat''\<rparr>"

definition sample_world :: world where
  "sample_world = \<lparr>sent = [], log_records = []\<rparr>"

definition sample_messages :: pyval where
  "sample_messages = PList [PDict [(''role'', PStr ''user''), (''content'', PStr ''ping'')]]"

definition sample_env :: "(nat \<Rightarrow> outcome) \<Rightarrow> env" where
  "sample_env script =
     \<lparr>transport = (\<lambda>n req. script n),
      elapsed_at = (\<lambda>k. real k),
      py_str = (\<lambda>v. Inr ''<object>'')\<rparr>"

definition connection_reset :: exn where
  "connection_reset = RequestException ''ConnectionError'' ''Connection reset by peer''"

definition ok_body :: "string \<Rightarrow> pyval" where
  "ok_body s = PDict [(''id'', PStr ''gen-1''),
                      (''choices'', PList [PDict [(''message'', PDict [(''content'', PStr s)])]])]"

definition ok_response :: "string \<Rightarrow> response" where
  "ok_response s = \<lparr>status_code = 200, text_body = ''{...}'', json = Inr (ok_body s)\<rparr>"

definition server_error :: response where
  "server_error =
     \<lparr>status_code = 500, text_body = ''Internal Server Error'', json = Inl (ValueError ''not JSON'')\<rparr>"

text \<open>A 200 answer whose body has no \<^verbatim>\<open>choices\<close>.\<close>

definition shapeless_response :: response where
  "shapeless_response =
     \<lparr>status_code = 200, text_body = ''{...}'',
      json = Inr (PDict [(''error'', PStr ''rate limited'')])\<rparr>"

text \<open>A 200 answer whose body is not JSON: \<^verbatim>\<open>json()\<close> raises.\<close>

definition garbled_response :: response where
  "garbled_response =
     \<lparr>status_code = 200, text_body = ''<html>'', json = Inl (ValueError ''Expecting value'')\<rparr>"

text \<open>The transport fails on its first \<open>n\<close> invocations and answers \<open>r\<close> afterwards.\<close>

definition fails_then :: "nat \<Rightarrow> response \<Rightarrow> nat \<Rightarrow> outcome" where
  "fails_then n r k = (if k < n then Raises connection_reset else Responds r)"

definition always_raises :: "nat \<Rightarrow> outcome" where
  "always_raises k = Raises connection_reset"

text \<open>The user interrupts the process while the POST is under way.\<close>

definition interrupted :: "nat \<Rightarrow> outcome" where
  "interrupted k = Raises KeyboardInterrupt"

text \<open>
  A message list holding an integer of 5001 digits, and a \<^verbatim>\<open>str()\<close> that refuses
  it as CPython 3.11 does (the conversion stops at 4300 digits).
\<close>

definition huge_messages :: pyval where
  "huge_messages = PList [PInt (10 ^ 5000)]"

definition digit_limit_str :: "pyval \<Rightarrow> exn + string" where
  "digit_limit_str v =
     (if v = huge_messages
      then Inl (ValueError ''Exceeds the limit (4300 digits) for integer string conversion'')
      else Inr ''<object>'')"


section \<open>Properties\<close>

subsection \<open>What one call does to the world\<close>

lemma logger_log_sent [simp]: "sent (logger_log l ev w) = sent w"
  by (simp add: logger_log_def)

lemma logger_log_records [simp]: "log_records (logger_log l ev w) = log_records w @ [(l, ev)]"
  by (simp add: logger_log_def)

lemma log_and_reraise_fst [simp]: "fst (log_and_reraise e w) = Inl e"
  by (simp add: log_and_reraise_def)

lemma log_and_reraise_sent [simp]: "sent (snd (log_and_reraise e w)) = sent w"
  by (simp add: log_and_reraise_def)

lemma log_and_reraise_last:
  "is_Exception e \<Longrightarrow> last (log_records (snd (log_and_reraise e w))) = (ERROR, CallException e)"
  by (simp add: log_and_reraise_def)

lemma log_and_return_none_sent [simp]: "sent (snd (log_and_return_none e w)) = sent w"
  by (simp add: log_and_return_none_def)

lemma log_and_return_none_caught:
  "is_Exception e \<Longrightarrow> log_and_return_none e w = (Inr PNone, logger_log ERROR (CompletionError e) w)"
  by (simp add: log_and_return_none_def)

lemma log_and_return_none_passed:
  "fst (log_and_return_none e w) = Inl e' \<Longrightarrow> \<not> is_Exception e'"
  by (auto simp: log_and_return_none_def split: if_splits)

text \<open>
  A call of \<open>call_openrouter_api\<close> invokes the transport once, with the request it built,
  unless rendering the messages for the log fails; then it invokes it not at all.
\<close>

lemma call_openrouter_api_sent:
  "sent (snd (call_openrouter_api cfg E msgs mdl temp w))
     = (case str_of E msgs of
          Inl e \<Rightarrow> sent w
        | Inr s \<Rightarrow> sent w @ [make_request cfg msgs mdl temp])"
  by (simp add: call_openrouter_api_def requests_post_def Let_def
           split: outcome.splits sum.splits)

lemma body_sent:
  "sent (snd (get_chat_completion_body cfg E msgs mdl temp w))
     = sent (snd (call_openrouter_api cfg E msgs mdl temp w))"
  by (auto simp: get_chat_completion_body_def Let_def split: prod.splits sum.splits)

lemma body_sent_rendered:
  "str_of E msgs = Inr s \<Longrightarrow>
   sent (snd (get_chat_completion_body cfg E msgs mdl temp w))
     = sent w @ [make_request cfg msgs mdl temp]"
  by (simp add: body_sent call_openrouter_api_sent)


text \<open>
  Both handlers of the body end in \<^verbatim>\<open>return None\<close>, so what leaves the body as an
  exception is never an instance of \<^verbatim>\<open>Exception\<close>.
\<close>

lemma body_raises_no_Exception:
  "fst (get_chat_completion_body cfg E msgs mdl temp w) = Inl e \<Longrightarrow> \<not> is_Exception e"
  by (auto simp: get_chat_completion_body_def Let_def
           split: prod.splits sum.splits if_splits dest: log_and_return_none_passed)

subsection \<open>The retry loop\<close>

lemma retry_exception_returns:
  "fst (target w) = Inr v \<Longrightarrow> retry_exception mt mx clk target tries w = Some (target w)"
  by (subst retry_exception.simps) (auto split: prod.splits sum.splits)

lemma retry_exception_passes:
  "fst (target w) = Inl e \<Longrightarrow> \<not> is_Exception e \<Longrightarrow>
   retry_exception mt mx clk target tries w = Some (target w)"
  by (subst retry_exception.simps) (auto split: prod.splits sum.splits)

text \<open>The decorated function makes exactly the one attempt of its body.\<close>

lemma get_chat_completion_one_attempt:
  "get_chat_completion cfg E msgs mdl temp w = Some (get_chat_completion_body cfg E msgs mdl temp w)"
proof (cases "fst (get_chat_completion_body cfg E msgs mdl temp w)")
  case (Inl e)
  then have "\<not> is_Exception e" by (rule body_raises_no_Exception)
  with Inl show ?thesis
    by (simp add: get_chat_completion_def on_exception_def retry_exception_passes)
next
  case (Inr v)
  then show ?thesis
    by (simp add: get_chat_completion_def on_exception_def retry_exception_returns)
qed

text \<open>With a positive bound on the attempts the loop always ends.\<close>

lemma retry_exception_total:
  "tries < mt \<Longrightarrow> \<exists>r. retry_exception mt mx clk target tries w = Some r"
proof (induction "mt - tries" arbitrary: tries w)
  case 0
  then show ?case by simp
next
  case (Suc d)
  show ?case
  proof (cases "target w")
    case (Pair res w1)
    show ?thesis
    proof (cases res)
      case (Inr v)
      with Pair show ?thesis by (subst retry_exception.simps) simp
    next
      case (Inl e)
      show ?thesis
      proof (cases "is_Exception e \<and> \<not> (tries + 1 = mt \<or> clk (tries + 1) \<ge> mx)")
        case False
        with Pair Inl show ?thesis by (subst retry_exception.simps) auto
      next
        case True
        then have "d = mt - (tries + 1)" "tries + 1 < mt" using Suc.hyps(2) Suc.prems by auto
        from Suc.hyps(1) [OF this] obtain r where
          "retry_exception mt mx clk target (tries + 1) w1 = Some r" by blast
        with Pair Inl True show ?thesis by (subst retry_exception.simps) auto
      qed
    qed
  qed
qed

text \<open>
  A target that raises an instance of \<^verbatim>\<open>Exception\<close> every time is tried five times;
  then its exception is re-raised.
\<close>

lemma retry_exception_five_attempts:
  "is_Exception e \<Longrightarrow>
   on_exception 5 300 (\<lambda>k. 0) (\<lambda>w. (Inl e, logger_log ERROR (CallException e) w)) w =
     Some (Inl e, (logger_log ERROR (CallException e) ^^ 5) w)"
  by (simp add: on_exception_def retry_exception.simps numeral_eq_Suc funpow_swap1)

subsection \<open>The branches of call_openrouter_api\<close>

lemma call_str_fails:
  assumes "str_of E msgs = Inl e"
  shows "fst (call_openrouter_api cfg E msgs mdl temp w) = Inl e"
    and "sent (snd (call_openrouter_api cfg E msgs mdl temp w)) = sent w"
    and "is_Exception e \<Longrightarrow>
         last (log_records (snd (call_openrouter_api cfg E msgs mdl temp w)))
           = (ERROR, CallException e)"
  using assms by (simp_all add: call_openrouter_api_def Let_def log_and_reraise_last)

lemma call_raises:
  assumes "str_of E msgs = Inr s"
    and "transport E (length (sent w)) (make_request cfg msgs mdl temp) = Raises e"
  shows "fst (call_openrouter_api cfg E msgs mdl temp w) = Inl e"
    and "is_Exception e \<Longrightarrow>
         last (log_records (snd (call_openrouter_api cfg E msgs mdl temp w)))
           = (ERROR, CallException e)"
  using assms
  by (simp_all add: call_openrouter_api_def requests_post_def Let_def log_and_reraise_last)

lemma call_bad_json:
  assumes "str_of E msgs = Inr s"
    and "transport E (length (sent w)) (make_request cfg msgs mdl temp) = Responds r"
    and "status_code r = 200" and "json r = Inl e"
  shows "fst (call_openrouter_api cfg E msgs mdl temp w) = Inl e"
    and "is_Exception e \<Longrightarrow>
         last (log_records (snd (call_openrouter_api cfg E msgs mdl temp w)))
           = (ERROR, CallException e)"
  using assms
  by (simp_all add: call_openrouter_api_def requests_post_def Let_def log_and_reraise_last)

lemma call_ok:
  assumes "str_of E msgs = Inr s"
    and "transport E (length (sent w)) (make_request cfg msgs mdl temp) = Responds r"
    and "status_code r = 200" and "json r = Inr data"
  shows "fst (call_openrouter_api cfg E msgs mdl temp w) = Inr data"
  using assms by (simp_all add: call_openrouter_api_def requests_post_def Let_def)

lemma call_not_200:
  assumes "str_of E msgs = Inr s"
    and "transport E (length (sent w)) (make_request cfg msgs mdl temp) = Responds r"
    and "status_code r \<noteq> 200"
  shows "fst (call_openrouter_api cfg E msgs mdl temp w) = Inr PNone"
    and "last (log_records (snd (call_openrouter_api cfg E msgs mdl temp w)))
           = (ERROR, CallFailed (status_code r) (text_body r))"
  using assms by (simp_all add: call_openrouter_api_def requests_post_def Let_def)

lemma call_raises_only_if:
  assumes "fst (call_openrouter_api cfg E msgs mdl temp w) = Inl e"
  shows "str_of E msgs = Inl e
       \<or> (\<exists>s. str_of E msgs = Inr s
            \<and> (transport E (length (sent w)) (make_request cfg msgs mdl temp) = Raises e
               \<or> (\<exists>r. transport E (length (sent w)) (make_request cfg msgs mdl temp) = Responds r
                      \<and> status_code r = 200 \<and> json r = Inl e)))"
  using assms
  by (auto simp: call_openrouter_api_def requests_post_def Let_def
           split: outcome.splits sum.splits if_splits)

subsection \<open>The branches of the body of get_chat_completion\<close>

lemma body_of_raise:
  assumes "fst (call_openrouter_api cfg E msgs mdl temp w) = Inl e" and "is_Exception e"
  shows "fst (get_chat_completion_body cfg E msgs mdl temp w) = Inr PNone"
    and "last (log_records (snd (get_chat_completion_body cfg E msgs mdl temp w)))
           = (ERROR, CompletionError e)"
  using assms
  by (auto simp: get_chat_completion_body_def log_and_return_none_caught split: prod.splits sum.splits)


lemma body_of_none:
  assumes "fst (call_openrouter_api cfg E msgs mdl temp w) = Inr PNone"
  shows "fst (get_chat_completion_body cfg E msgs mdl temp w) = Inr PNone"
    and "last (log_records (snd (get_chat_completion_body cfg E msgs mdl temp w))) = (ERROR, EmptyResponse)"
  using assms by (auto simp: get_chat_completion_body_def split: prod.splits sum.splits)

text \<open>A lookup that fails raises KeyError, IndexError or TypeError.\<close>

lemma index_seq_is_Exception: "index_seq xs i = Inl e \<Longrightarrow> is_Exception e"
  by (auto simp: index_seq_def split: if_splits)

lemma getitem_str_is_Exception: "getitem_str v k = Inl e \<Longrightarrow> is_Exception e"
  by (cases v) (auto split: option.splits)

lemma getitem_int_is_Exception: "getitem_int v i = Inl e \<Longrightarrow> is_Exception e"
  by (cases v) (auto split: sum.splits dest: index_seq_is_Exception)

lemma extract_content_is_Exception: "extract_content resp = Inl e \<Longrightarrow> is_Exception e"
  by (auto simp: extract_content_def split: sum.splits
           dest: getitem_str_is_Exception getitem_int_is_Exception)

lemma body_of_shape_error:
  assumes "fst (call_openrouter_api cfg E msgs mdl temp w) = Inr resp"
    and "extract_content resp = Inl e"
  shows "fst (get_chat_completion_body cfg E msgs mdl temp w) = Inr PNone"
    and "resp \<noteq> PNone \<Longrightarrow>
         last (log_records (snd (get_chat_completion_body cfg E msgs mdl temp w))) = (ERROR, CompletionError e)"
    and "\<exists>ev. last (log_records (snd (get_chat_completion_body cfg E msgs mdl temp w))) = (ERROR, ev)"
  using assms extract_content_is_Exception [OF assms(2)]
  by (auto simp: get_chat_completion_body_def log_and_return_none_caught split: prod.splits sum.splits)

lemma content_preview_str: "\<exists>p. content_preview E (PStr s) = Inr p"
  by (simp add: content_preview_def str_of_def)

lemma body_of_content:
  assumes "fst (call_openrouter_api cfg E msgs mdl temp w) = Inr resp"
    and "extract_content resp = Inr (PStr s)"
  shows "fst (get_chat_completion_body cfg E msgs mdl temp w) = Inr (PStr s)"
proof -
  from assms(2) have "resp \<noteq> PNone" by (auto simp: extract_content_def)
  moreover obtain p where "content_preview E (PStr s) = Inr p"
    using content_preview_str by blast
  ultimately show ?thesis
    using assms by (auto simp: get_chat_completion_body_def Let_def split: prod.splits sum.splits)
qed

lemma extract_content_path:
  assumes "map_of kvs ''choices'' = Some (PList (PDict ckvs # rest))"
    and "map_of ckvs ''message'' = Some (PDict mkvs)"
    and "map_of mkvs ''content'' = Some c"
  shows "extract_content (PDict kvs) = Inr c"
  using assms by (simp add: extract_content_def index_seq_def)

lemma extract_content_no_choices:
  "map_of kvs ''choices'' = None \<Longrightarrow> extract_content (PDict kvs) = Inl (KeyError (PStr ''choices''))"
  by (simp add: extract_content_def)

lemma get_chat_completion_result:
  "get_chat_completion cfg E msgs mdl temp w =
     Some (fst (get_chat_completion_body cfg E msgs mdl temp w),
           snd (get_chat_completion_body cfg E msgs mdl temp w))"
  by (simp add: get_chat_completion_one_attempt)

subsection \<open>The request that is sent\<close>

lemma model_of_make_request [simp]:
  "model (json_payload (make_request cfg msgs mdl temp)) = model_or mdl (default_model cfg)"
  by (simp add: make_request_def)

lemma headers_of_make_request [simp]:
  "headers (make_request cfg msgs mdl temp) = [(''Authorization'', ''Bearer '' @ api_key cfg)]"
  by (simp add: make_request_def)

text \<open>The requests that a call adds to those sent before it.\<close>

lemma call_openrouter_api_new_requests:
  "drop (length (sent w)) (sent (snd (call_openrouter_api cfg E msgs mdl temp w)))
     = (case str_of E msgs of Inl e \<Rightarrow> [] | Inr s \<Rightarrow> [make_request cfg msgs mdl temp])"
  by (simp add: call_openrouter_api_sent split: sum.splits)

subsection \<open>Configuration loading\<close>

lemma initialize_sent: "sent (snd (initialize environ dotenv w)) = sent w"
  by (simp add: initialize_def Let_def split: option.splits)

lemma initialize_missing:
  assumes "load_env environ dotenv ''OPENROUTER_API_KEY'' = None
         \<or> load_env environ dotenv ''OPENROUTER_API_KEY'' = Some ''''"
  shows "fst (initialize environ dotenv w)
           = Inl (ValueError ''OPENROUTER_API_KEY not found in environment variables'')"
  using assms by (auto simp: initialize_def Let_def split: option.splits)

lemma initialize_present:
  assumes "load_env environ dotenv ''OPENROUTER_API_KEY'' = Some k" and "k \<noteq> ''''"
  shows "fst (initialize environ dotenv w)
           = Inr \<lparr>api_key = k,
                  default_model = getenv_default (load_env environ dotenv) ''OPENROUTER_MODEL''
                                    ''deepseek/deepseek-chat''\<rparr>"
  using assms by (auto simp: initialize_def Let_def split: option.splits)

subsection \<open>The sample surroundings\<close>

lemma sample_raises [simp]:
  "transport (sample_env always_raises) n req = Raises connection_reset"
  by (simp add: sample_env_def always_raises_def)

lemma sample_interrupted [simp]:
  "transport (sample_env interrupted) n req = Raises KeyboardInterrupt"
  by (simp add: sample_env_def interrupted_def)

lemma sample_fails_then [simp]:
  "transport (sample_env (fails_then k r)) n req
     = (if n < k then Raises connection_reset else Responds r)"
  by (simp add: sample_env_def fails_then_def)

lemma sample_str_of [simp]: "\<exists>s. str_of (sample_env script) v = Inr s"
  by (simp add: str_of_def sample_env_def split: pyval.splits)

lemma sample_str_of_messages [simp]: "str_of (sample_env script) sample_messages = Inr ''<object>''"
  by (simp add: str_of_def sample_env_def sample_messages_def)

lemma sent_sample_world [simp]: "sent sample_world = []"
  by (simp add: sample_world_def)

lemma connection_reset_is_Exception [simp]: "is_Exception connection_reset"
  by (simp add: connection_reset_def)

lemma str_of_PList: "str_of E (PList xs) = py_str E (PList xs)"
  by (simp add: str_of_def)

lemma str_of_huge_messages:
  "str_of (E\<lparr>py_str := digit_limit_str\<rparr>) huge_messages
     = Inl (ValueError ''Exceeds the limit (4300 digits) for integer string conversion'')"
proof -
  have "str_of (E\<lparr>py_str := digit_limit_str\<rparr>) huge_messages
          = py_str (E\<lparr>py_str := digit_limit_str\<rparr>) huge_messages"
    unfolding huge_messages_def by (rule str_of_PList)
  then show ?thesis by (simp add: digit_limit_str_def)
qed

section \<open>The claims\<close>

text \<open>
  In the spec, \<^verbatim>\<open>send_request\<close> is \<open>call_openrouter_api\<close> and \<^verbatim>\<open>get_completion\<close> is
  \<open>get_chat_completion\<close>. "The transport is invoked once" reads: the list \<open>sent\<close> grows
  by one request. "The transport answers" or "raises" presupposes that the call reached
  it, that is, that \<^verbatim>\<open>str(messages)\<close> returned for the request log: \<open>str_of E msgs = Inr s\<close>.
\<close>

text \<open>
  C1. The claim: when every attempt's transport call raises, \<open>get_chat_completion\<close> returns no
  value and the last exception reaches its caller once the budget of 5 attempts or 300
  seconds is used up. The code does otherwise: with a transport that always raises a
  connection error, the handler at the end of the function body turns the first
  exception into \<^verbatim>\<open>None\<close>, the decorator sees a normal return, and the call returns
  \<^verbatim>\<open>None\<close> after a single request.
\<close>

theorem always_raising_transport_returns_none:
  "map_option fst (get_chat_completion sample_config (sample_env always_raises)
       sample_messages None (7/10) sample_world) = Some (Inr PNone)
   \<and> map_option (length \<circ> sent \<circ> snd) (get_chat_completion sample_config
       (sample_env always_raises) sample_messages None (7/10) sample_world) = Some 1"
proof -
  have "fst (call_openrouter_api sample_config (sample_env always_raises) sample_messages None
          (7/10) sample_world) = Inl connection_reset"
    by (rule call_raises(1) [where s = "''<object>''"]) simp_all
  then have "fst (get_chat_completion_body sample_config (sample_env always_raises)
          sample_messages None (7/10) sample_world) = Inr PNone"
    by (rule body_of_raise(1)) simp
  then show ?thesis
    by (simp add: get_chat_completion_one_attempt body_sent call_openrouter_api_sent)
qed

text \<open>
  C2. The claim: when the transport raises on the first \<open>N < 5\<close> attempts and answers 200
  with a valid body on attempt \<open>N + 1\<close>, \<open>get_chat_completion\<close> returns the content after
  \<open>N + 1\<close> requests. The code does otherwise for \<open>N = 1\<close>: the transport raises once and
  would answer \<^verbatim>\<open>hello\<close> the second time, but the call returns \<^verbatim>\<open>None\<close> after
  the first request and never makes the second.
\<close>

theorem raise_then_success_returns_none:
  "map_option fst (get_chat_completion sample_config
       (sample_env (fails_then 1 (ok_response ''hello''))) sample_messages None (7/10)
       sample_world) = Some (Inr PNone)
   \<and> map_option (length \<circ> sent \<circ> snd) (get_chat_completion sample_config
       (sample_env (fails_then 1 (ok_response ''hello''))) sample_messages None (7/10)
       sample_world) = Some 1"
proof -
  have "fst (call_openrouter_api sample_config (sample_env (fails_then 1 (ok_response ''hello'')))
          sample_messages None (7/10) sample_world) = Inl connection_reset"
    by (rule call_raises(1) [where s = "''<object>''"]) simp_all
  then have "fst (get_chat_completion_body sample_config
          (sample_env (fails_then 1 (ok_response ''hello''))) sample_messages None (7/10)
          sample_world) = Inr PNone"
    by (rule body_of_raise(1)) simp
  then show ?thesis
    by (simp add: get_chat_completion_one_attempt body_sent call_openrouter_api_sent)
qed




text \<open>
  C4. When the transport answers with a status other than 200, \<open>call_openrouter_api\<close>
  returns \<^verbatim>\<open>None\<close> without raising, after logging the status and the body, and
  \<open>get_chat_completion\<close> returns \<^verbatim>\<open>None\<close> with exactly one request sent.
\<close>

theorem non_200_status_is_sentinel_without_retry:
  assumes "str_of E msgs = Inr s"
    and "transport E (length (sent w)) (make_request cfg msgs mdl temp) = Responds r"
    and "status_code r \<noteq> 200"
  shows "fst (call_openrouter_api cfg E msgs mdl temp w) = Inr PNone
       \<and> last (log_records (snd (call_openrouter_api cfg E msgs mdl temp w)))
           = (ERROR, CallFailed (status_code r) (text_body r))
       \<and> (\<exists>w'. get_chat_completion cfg E msgs mdl temp w = Some (Inr PNone, w')
              \<and> sent w' = sent w @ [make_request cfg msgs mdl temp])"
proof -
  have c: "fst (call_openrouter_api cfg E msgs mdl temp w) = Inr PNone"
    using assms by (rule call_not_200(1))
  have "fst (get_chat_completion_body cfg E msgs mdl temp w) = Inr PNone"
    using c by (rule body_of_none(1))
  then have "\<exists>w'. get_chat_completion cfg E msgs mdl temp w = Some (Inr PNone, w')
              \<and> sent w' = sent w @ [make_request cfg msgs mdl temp]"
    using assms(1) by (simp add: get_chat_completion_result body_sent_rendered)
  with c call_not_200(2) [OF assms] show ?thesis by simp
qed

text \<open>C4 at a server that answers 500.\<close>

theorem non_200_status_is_sentinel_without_retry_witness:
  "str_of (sample_env (fails_then 0 server_error)) sample_messages = Inr ''<object>''
   \<and> transport (sample_env (fails_then 0 server_error)) (length (sent sample_world))
      (make_request sample_config sample_messages None (7/10)) = Responds server_error
   \<and> status_code server_error \<noteq> 200
   \<and> fst (call_openrouter_api sample_config (sample_env (fails_then 0 server_error))
            sample_messages None (7/10) sample_world) = Inr PNone
   \<and> (\<exists>w'. get_chat_completion sample_config (sample_env (fails_then 0 server_error))
              sample_messages None (7/10) sample_world = Some (Inr PNone, w')
           \<and> length (sent w') = 1)"
proof -
  have h0: "str_of (sample_env (fails_then 0 server_error)) sample_messages = Inr ''<object>''"
    by simp
  have h1: "transport (sample_env (fails_then 0 server_error)) (length (sent sample_world))
      (make_request sample_config sample_messages None (7/10)) = Responds server_error"
    by simp
  have h2: "status_code server_error \<noteq> 200" by (simp add: server_error_def)
  from non_200_status_is_sentinel_without_retry [OF h0 h1 h2] h0 h1 h2 show ?thesis by auto
qed

text \<open>
  C5. When the transport answers 200 with a body that is an object whose \<^verbatim>\<open>choices\<close>
  is a list starting with an object whose \<^verbatim>\<open>message\<close> is an object whose
  \<^verbatim>\<open>content\<close> is the string \<open>s\<close>, \<open>get_chat_completion\<close> returns exactly \<open>s\<close>, with
  one request sent.
\<close>

theorem valid_200_returns_content:
  assumes "str_of E msgs = Inr t"
    and "transport E (length (sent w)) (make_request cfg msgs mdl temp) = Responds r"
    and "status_code r = 200"
    and "json r = Inr (PDict kvs)"
    and "map_of kvs ''choices'' = Some (PList (PDict ckvs # rest))"
    and "map_of ckvs ''message'' = Some (PDict mkvs)"
    and "map_of mkvs ''content'' = Some (PStr s)"
  shows "\<exists>w'. get_chat_completion cfg E msgs mdl temp w = Some (Inr (PStr s), w')
            \<and> sent w' = sent w @ [make_request cfg msgs mdl temp]"
proof -
  have "fst (call_openrouter_api cfg E msgs mdl temp w) = Inr (PDict kvs)"
    using assms(1-4) by (rule call_ok)
  moreover have "extract_content (PDict kvs) = Inr (PStr s)"
    using assms(5-7) by (rule extract_content_path)
  ultimately have "fst (get_chat_completion_body cfg E msgs mdl temp w) = Inr (PStr s)"
    by (rule body_of_content)
  then show ?thesis
    using assms(1) by (simp add: get_chat_completion_result body_sent_rendered)
qed

text \<open>C5 at a server whose answer carries the content \<^verbatim>\<open>hello\<close>.\<close>

theorem valid_200_returns_content_witness:
  "\<exists>w'. get_chat_completion sample_config (sample_env (fails_then 0 (ok_response ''hello'')))
            sample_messages None (7/10) sample_world = Some (Inr (PStr ''hello''), w')
         \<and> length (sent w') = 1"
proof -
  have h0: "str_of (sample_env (fails_then 0 (ok_response ''hello''))) sample_messages
              = Inr ''<object>''"
    by simp
  have h1: "transport (sample_env (fails_then 0 (ok_response ''hello'')))
      (length (sent sample_world)) (make_request sample_config sample_messages None (7/10))
        = Responds (ok_response ''hello'')"
    by simp
  have h2: "status_code (ok_response ''hello'') = 200" by (simp add: ok_response_def)
  have h3: "json (ok_response ''hello'') = Inr (PDict [(''id'', PStr ''gen-1''),
       (''choices'', PList [PDict [(''message'', PDict [(''content'', PStr ''hello'')])]])])"
    by (simp add: ok_response_def ok_body_def)
  have h4: "map_of [(''id'', PStr ''gen-1''),
       (''choices'', PList [PDict [(''message'', PDict [(''content'', PStr ''hello'')])]])]
       ''choices'' = Some (PList (PDict [(''message'', PDict [(''content'', PStr ''hello'')])] # []))"
    by simp
  have h5: "map_of [(''message'', PDict [(''content'', PStr ''hello'')])] ''message''
       = Some (PDict [(''content'', PStr ''hello'')])"
    by simp
  have h6: "map_of [(''content'', PStr ''hello'')] ''content'' = Some (PStr ''hello'')"
    by simp
  from valid_200_returns_content [OF h0 h1 h2 h3 h4 h5 h6] show ?thesis by auto
qed

text \<open>
  C6. When the transport answers 200 and the lookup \<^verbatim>\<open>choices[0].message.content\<close>
  fails on the decoded body (for instance because \<^verbatim>\<open>choices\<close> is absent),
  \<open>get_chat_completion\<close> does not retry and does not raise: one request is sent, the last
  log record is an error record (the shape error itself, unless the body is JSON
  \<^verbatim>\<open>null\<close>), and \<^verbatim>\<open>None\<close> is returned.
\<close>

theorem malformed_200_returns_none:
  assumes "str_of E msgs = Inr t"
    and "transport E (length (sent w)) (make_request cfg msgs mdl temp) = Responds r"
    and "status_code r = 200"
    and "json r = Inr body"
    and "extract_content body = Inl e"
  shows "\<exists>w'. get_chat_completion cfg E msgs mdl temp w = Some (Inr PNone, w')
            \<and> sent w' = sent w @ [make_request cfg msgs mdl temp]
            \<and> (\<exists>ev. last (log_records w') = (ERROR, ev))
            \<and> (body \<noteq> PNone \<longrightarrow> last (log_records w') = (ERROR, CompletionError e))"
proof -
  have c: "fst (call_openrouter_api cfg E msgs mdl temp w) = Inr body"
    using assms(1-4) by (rule call_ok)
  note b = body_of_shape_error [OF c assms(5)]
  show ?thesis
    using b assms(1) by (simp add: get_chat_completion_result body_sent_rendered)
qed

text \<open>C6 at a 200 answer without \<^verbatim>\<open>choices\<close>: the KeyError is logged, \<^verbatim>\<open>None\<close> returned.\<close>

theorem malformed_200_returns_none_witness:
  "extract_content (PDict [(''error'', PStr ''rate limited'')]) = Inl (KeyError (PStr ''choices''))
   \<and> (\<exists>w'. get_chat_completion sample_config (sample_env (fails_then 0 shapeless_response))
              sample_messages None (7/10) sample_world = Some (Inr PNone, w')
           \<and> length (sent w') = 1
           \<and> last (log_records w') = (ERROR, CompletionError (KeyError (PStr ''choices''))))"
proof -
  have h0: "str_of (sample_env (fails_then 0 shapeless_response)) sample_messages
              = Inr ''<object>''"
    by simp
  have h1: "transport (sample_env (fails_then 0 shapeless_response)) (length (sent sample_world))
      (make_request sample_config sample_messages None (7/10)) = Responds shapeless_response"
    by simp
  have h2: "status_code shapeless_response = 200" by (simp add: shapeless_response_def)
  have h3: "json shapeless_response = Inr (PDict [(''error'', PStr ''rate limited'')])"
    by (simp add: shapeless_response_def)
  have h4: "extract_content (PDict [(''error'', PStr ''rate limited'')])
              = Inl (KeyError (PStr ''choices''))"
    by (simp add: extract_content_def)
  from malformed_200_returns_none [OF h0 h1 h2 h3 h4] h4 show ?thesis by auto
qed

text \<open>
  C7, as stated, fails: the claim says a supplied model appears verbatim in the request
  body. The empty string is a supplied value, and the request then carries the configured
  default, not the empty string.
\<close>

theorem supplied_empty_model_is_replaced:
  "model (json_payload (last (sent (snd (call_openrouter_api sample_config
      (sample_env always_raises) sample_messages (Some '''') (7/10) sample_world))))) \<noteq> ''''"
  by (simp add: call_openrouter_api_sent model_or_def sample_config_def)

text \<open>
  C7, amended. A call of \<open>call_openrouter_api\<close> or \<open>get_chat_completion\<close> sends one request
  (none when \<^verbatim>\<open>str(messages)\<close> raises before the POST); when the model argument is
  supplied and not empty, it is the \<^verbatim>\<open>model\<close> field of that request's body; when it is
  omitted, the field is the configured default.
\<close>

theorem model_field_of_request:
  "(\<forall>s. str_of E msgs = Inr s
      \<longrightarrow> sent (snd (call_openrouter_api cfg E msgs mdl temp w))
            = sent w @ [make_request cfg msgs mdl temp]
        \<and> (\<exists>r. get_chat_completion cfg E msgs mdl temp w = Some r
               \<and> sent (snd r) = sent w @ [make_request cfg msgs mdl temp]))
   \<and> (\<forall>e. str_of E msgs = Inl e
      \<longrightarrow> sent (snd (call_openrouter_api cfg E msgs mdl temp w)) = sent w
        \<and> (\<exists>r. get_chat_completion cfg E msgs mdl temp w = Some r \<and> sent (snd r) = sent w))
   \<and> (\<forall>m. mdl = Some m \<and> m \<noteq> [] \<longrightarrow> model (json_payload (make_request cfg msgs mdl temp)) = m)
   \<and> (mdl = None \<longrightarrow> model (json_payload (make_request cfg msgs mdl temp)) = default_model cfg)"
  by (simp add: call_openrouter_api_sent get_chat_completion_one_attempt body_sent model_or_def)

text \<open>C7 amended, at a supplied model name and at an omitted one.\<close>

theorem model_field_of_request_witness:
  "str_of (sample_env always_raises) sample_messages = Inr ''<object>''
   \<and> sent (snd (call_openrouter_api sample_config (sample_env always_raises) sample_messages
        (Some ''openai/gpt-4o'') (7/10) sample_world))
      = [make_request sample_config sample_messages (Some ''openai/gpt-4o'') (7/10)]
   \<and> model (json_payload (make_request sample_config sample_messages (Some ''openai/gpt-4o'') (7/10)))
      = ''openai/gpt-4o''
   \<and> model (json_payload (make_request sample_config sample_messages None (7/10)))
      = ''deepseek/deepseek-chat''
   \<and> sent (snd (call_openrouter_api sample_config
        ((sample_env always_raises)\<lparr>py_str := digit_limit_str\<rparr>) huge_messages None (7/10)
        sample_world)) = []"
  using model_field_of_request [of "sample_env always_raises" sample_messages sample_config
      "Some ''openai/gpt-4o''" "7/10" sample_world]
    model_field_of_request [of "sample_env always_raises" sample_messages sample_config
      None "7/10" sample_world]
    model_field_of_request [of "(sample_env always_raises)\<lparr>py_str := digit_limit_str\<rparr>"
      huge_messages sample_config None "7/10" sample_world]
  by (simp add: sample_config_def str_of_huge_messages)

text \<open>
  C8. When \<^verbatim>\<open>OPENROUTER_API_KEY\<close> is missing or empty in the environment that the module
  reads (the process environment overridden by the \<^verbatim>\<open>.env\<close> file), initialization
  raises the ValueError; otherwise it succeeds with that key, and every request made with
  the resulting configuration carries the key in its Authorization header. In both cases
  initialization sends no request.
\<close>

theorem initialize_requires_api_key:
  "(load_env environ dotenv ''OPENROUTER_API_KEY'' = None
      \<or> load_env environ dotenv ''OPENROUTER_API_KEY'' = Some ''''
     \<longrightarrow> fst (initialize environ dotenv w)
           = Inl (ValueError ''OPENROUTER_API_KEY not found in environment variables''))
   \<and> (\<forall>k. load_env environ dotenv ''OPENROUTER_API_KEY'' = Some k \<and> k \<noteq> ''''
        \<longrightarrow> (\<exists>cfg. fst (initialize environ dotenv w) = Inr cfg \<and> api_key cfg = k
               \<and> (\<forall>E msgs mdl temp w0.
                     \<forall>req \<in> set (drop (length (sent w0))
                                  (sent (snd (call_openrouter_api cfg E msgs mdl temp w0)))).
                       headers req = [(''Authorization'', ''Bearer '' @ k)])
               \<and> (\<forall>E msgs mdl temp w0 s. str_of E msgs = Inr s
                     \<longrightarrow> headers (last (sent (snd (call_openrouter_api cfg E msgs mdl temp w0))))
                           = [(''Authorization'', ''Bearer '' @ k)])))
   \<and> sent (snd (initialize environ dotenv w)) = sent w"
proof (intro conjI impI allI)
  assume "load_env environ dotenv ''OPENROUTER_API_KEY'' = None
      \<or> load_env environ dotenv ''OPENROUTER_API_KEY'' = Some ''''"
  then show "fst (initialize environ dotenv w)
           = Inl (ValueError ''OPENROUTER_API_KEY not found in environment variables'')"
    by (rule initialize_missing)
next
  fix k
  assume "load_env environ dotenv ''OPENROUTER_API_KEY'' = Some k \<and> k \<noteq> ''''"
  then have "fst (initialize environ dotenv w)
           = Inr \<lparr>api_key = k,
                  default_model = getenv_default (load_env environ dotenv) ''OPENROUTER_MODEL''
                                    ''deepseek/deepseek-chat''\<rparr>"
    by (simp add: initialize_present)
  then show "\<exists>cfg. fst (initialize environ dotenv w) = Inr cfg \<and> api_key cfg = k
               \<and> (\<forall>E msgs mdl temp w0.
                     \<forall>req \<in> set (drop (length (sent w0))
                                  (sent (snd (call_openrouter_api cfg E msgs mdl temp w0)))).
                       headers req = [(''Authorization'', ''Bearer '' @ k)])
               \<and> (\<forall>E msgs mdl temp w0 s. str_of E msgs = Inr s
                     \<longrightarrow> headers (last (sent (snd (call_openrouter_api cfg E msgs mdl temp w0))))
                           = [(''Authorization'', ''Bearer '' @ k)])"
    by (simp add: call_openrouter_api_sent split: sum.splits)
next
  show "sent (snd (initialize environ dotenv w)) = sent w" by (rule initialize_sent)
qed

text \<open>
  C8 at an empty environment without a \<^verbatim>\<open>.env\<close> file, and at an environment whose
  empty key is overridden by the file.
\<close>

theorem initialize_requires_api_key_witness:
  "load_env Map.empty None ''OPENROUTER_API_KEY'' = None
   \<and> fst (initialize Map.empty None sample_world)
       = Inl (ValueError ''OPENROUTER_API_KEY not found in environment variables'')
   \<and> load_env [''OPENROUTER_API_KEY'' \<mapsto> ''''] (Some [''OPENROUTER_API_KEY'' \<mapsto> ''sk-test''])
        ''OPENROUTER_API_KEY'' = Some ''sk-test''
   \<and> (\<exists>cfg. fst (initialize [''OPENROUTER_API_KEY'' \<mapsto> '''']
                  (Some [''OPENROUTER_API_KEY'' \<mapsto> ''sk-test'']) sample_world) = Inr cfg
          \<and> api_key cfg = ''sk-test''
          \<and> headers (last (sent (snd (call_openrouter_api cfg (sample_env always_raises)
                sample_messages None (7/10) sample_world))))
              = [(''Authorization'', ''Bearer sk-test'')])
   \<and> sent (snd (initialize Map.empty None sample_world)) = []"
proof -
  have h1: "load_env Map.empty None ''OPENROUTER_API_KEY'' = None"
    by (simp add: load_env_def)
  have h2: "load_env [''OPENROUTER_API_KEY'' \<mapsto> '''']
        (Some [''OPENROUTER_API_KEY'' \<mapsto> ''sk-test'']) ''OPENROUTER_API_KEY'' = Some ''sk-test''"
    by (simp add: load_env_def)
  from initialize_requires_api_key [of Map.empty None sample_world] h1
  have a: "fst (initialize Map.empty None sample_world)
       = Inl (ValueError ''OPENROUTER_API_KEY not found in environment variables'')"
    and c: "sent (snd (initialize Map.empty None sample_world)) = []"
    by simp_all
  from initialize_requires_api_key [of "[''OPENROUTER_API_KEY'' \<mapsto> '''']"
      "Some [''OPENROUTER_API_KEY'' \<mapsto> ''sk-test'']" sample_world] h2
  obtain cfg where b: "fst (initialize [''OPENROUTER_API_KEY'' \<mapsto> '''']
                  (Some [''OPENROUTER_API_KEY'' \<mapsto> ''sk-test'']) sample_world) = Inr cfg"
      "api_key cfg = ''sk-test''"
      "\<forall>E msgs mdl temp w0 s. str_of E msgs = Inr s
          \<longrightarrow> headers (last (sent (snd (call_openrouter_api cfg E msgs mdl temp w0))))
                = [(''Authorization'', ''Bearer '' @ ''sk-test'')]"
    by auto
  from b(3) have "headers (last (sent (snd (call_openrouter_api cfg (sample_env always_raises)
                sample_messages None (7/10) sample_world))))
              = [(''Authorization'', ''Bearer '' @ ''sk-test'')]"
    using sample_str_of_messages by blast
  with b(1,2) have b': "\<exists>cfg. fst (initialize [''OPENROUTER_API_KEY'' \<mapsto> '''']
                  (Some [''OPENROUTER_API_KEY'' \<mapsto> ''sk-test'']) sample_world) = Inr cfg
          \<and> api_key cfg = ''sk-test''
          \<and> headers (last (sent (snd (call_openrouter_api cfg (sample_env always_raises)
                sample_messages None (7/10) sample_world))))
              = [(''Authorization'', ''Bearer sk-test'')]"
    by auto
  from h1 h2 a b' c show ?thesis by simp
qed

text \<open>
  C9, as stated, fails: the claim says that a raising HTTP call is the only failure that
  \<open>call_openrouter_api\<close> surfaces as an exception. The log call of lines 110--111 sits
  inside the \<^verbatim>\<open>try\<close> and renders \<^verbatim>\<open>str(messages)\<close>; for a message list holding an
  integer of 5001 digits that raises ValueError, which \<open>call_openrouter_api\<close> re-raises
  although no HTTP call was made (the server would have answered 200).
\<close>

theorem str_failure_surfaces_without_http_call:
  "fst (call_openrouter_api sample_config
          ((sample_env (fails_then 0 (ok_response ''hello'')))\<lparr>py_str := digit_limit_str\<rparr>)
          huge_messages None (7/10) sample_world)
     = Inl (ValueError ''Exceeds the limit (4300 digits) for integer string conversion'')
   \<and> sent (snd (call_openrouter_api sample_config
          ((sample_env (fails_then 0 (ok_response ''hello'')))\<lparr>py_str := digit_limit_str\<rparr>)
          huge_messages None (7/10) sample_world)) = []"
  by (simp add: call_str_fails(1,2) [OF str_of_huge_messages])

text \<open>
  C9, amended. When the HTTP call raises (\<^verbatim>\<open>requests.post\<close> itself, or \<^verbatim>\<open>json()\<close> on
  a 200 answer whose body is malformed), \<open>call_openrouter_api\<close> raises the same exception,
  after logging it at error level when it is an instance of \<^verbatim>\<open>Exception\<close> (as every
  network-level exception is). The only other failure that it surfaces as an exception
  is that of \<^verbatim>\<open>str(messages)\<close> in the request log, raised before any HTTP call.
\<close>

theorem call_openrouter_api_reraises:
  "(\<forall>s. str_of E msgs = Inr s
        \<and> transport E (length (sent w)) (make_request cfg msgs mdl temp) = Raises e
     \<longrightarrow> fst (call_openrouter_api cfg E msgs mdl temp w) = Inl e
       \<and> (is_Exception e \<longrightarrow>
            last (log_records (snd (call_openrouter_api cfg E msgs mdl temp w)))
              = (ERROR, CallException e)))
   \<and> (\<forall>s r. str_of E msgs = Inr s
        \<and> transport E (length (sent w)) (make_request cfg msgs mdl temp) = Responds r
        \<and> status_code r = 200 \<and> json r = Inl e
     \<longrightarrow> fst (call_openrouter_api cfg E msgs mdl temp w) = Inl e
       \<and> (is_Exception e \<longrightarrow>
            last (log_records (snd (call_openrouter_api cfg E msgs mdl temp w)))
              = (ERROR, CallException e)))
   \<and> (str_of E msgs = Inl e
     \<longrightarrow> fst (call_openrouter_api cfg E msgs mdl temp w) = Inl e
       \<and> sent (snd (call_openrouter_api cfg E msgs mdl temp w)) = sent w
       \<and> (is_Exception e \<longrightarrow>
            last (log_records (snd (call_openrouter_api cfg E msgs mdl temp w)))
              = (ERROR, CallException e)))
   \<and> (fst (call_openrouter_api cfg E msgs mdl temp w) = Inl e
     \<longrightarrow> str_of E msgs = Inl e
       \<or> (\<exists>s. str_of E msgs = Inr s
            \<and> (transport E (length (sent w)) (make_request cfg msgs mdl temp) = Raises e
               \<or> (\<exists>r. transport E (length (sent w)) (make_request cfg msgs mdl temp) = Responds r
                      \<and> status_code r = 200 \<and> json r = Inl e))))"
proof (intro conjI allI impI)
  fix s
  assume a: "str_of E msgs = Inr s
        \<and> transport E (length (sent w)) (make_request cfg msgs mdl temp) = Raises e"
  then show "fst (call_openrouter_api cfg E msgs mdl temp w) = Inl e"
    by (simp add: call_raises(1))
  assume "is_Exception e"
  with a show "last (log_records (snd (call_openrouter_api cfg E msgs mdl temp w)))
              = (ERROR, CallException e)"
    by (simp add: call_raises(2))
next
  fix s r
  assume a: "str_of E msgs = Inr s
        \<and> transport E (length (sent w)) (make_request cfg msgs mdl temp) = Responds r
        \<and> status_code r = 200 \<and> json r = Inl e"
  then show "fst (call_openrouter_api cfg E msgs mdl temp w) = Inl e"
    by (simp add: call_bad_json(1))
  assume "is_Exception e"
  with a show "last (log_records (snd (call_openrouter_api cfg E msgs mdl temp w)))
              = (ERROR, CallException e)"
    by (simp add: call_bad_json(2))
next
  assume a: "str_of E msgs = Inl e"
  then show "fst (call_openrouter_api cfg E msgs mdl temp w) = Inl e"
    by (rule call_str_fails(1))
  from a show "sent (snd (call_openrouter_api cfg E msgs mdl temp w)) = sent w"
    by (rule call_str_fails(2))
  assume "is_Exception e"
  with a show "last (log_records (snd (call_openrouter_api cfg E msgs mdl temp w)))
              = (ERROR, CallException e)"
    by (simp add: call_str_fails(3))
next
  assume "fst (call_openrouter_api cfg E msgs mdl temp w) = Inl e"
  then show "str_of E msgs = Inl e
       \<or> (\<exists>s. str_of E msgs = Inr s
            \<and> (transport E (length (sent w)) (make_request cfg msgs mdl temp) = Raises e
               \<or> (\<exists>r. transport E (length (sent w)) (make_request cfg msgs mdl temp) = Responds r
                      \<and> status_code r = 200 \<and> json r = Inl e)))"
    by (rule call_raises_only_if)
qed

text \<open>
  C9 amended, at a connection that is reset, at a 200 answer that is not JSON, and at a
  message list that \<^verbatim>\<open>str()\<close> refuses.
\<close>

theorem call_openrouter_api_reraises_witness:
  "str_of (sample_env always_raises) sample_messages = Inr ''<object>''
   \<and> transport (sample_env always_raises) (length (sent sample_world))
      (make_request sample_config sample_messages None (7/10)) = Raises connection_reset
   \<and> is_Exception connection_reset
   \<and> fst (call_openrouter_api sample_config (sample_env always_raises) sample_messages None
            (7/10) sample_world) = Inl connection_reset
   \<and> last (log_records (snd (call_openrouter_api sample_config (sample_env always_raises)
            sample_messages None (7/10) sample_world))) = (ERROR, CallException connection_reset)
   \<and> transport (sample_env (fails_then 0 garbled_response)) (length (sent sample_world))
      (make_request sample_config sample_messages None (7/10)) = Responds garbled_response
   \<and> status_code garbled_response = 200
   \<and> json garbled_response = Inl (ValueError ''Expecting value'')
   \<and> fst (call_openrouter_api sample_config (sample_env (fails_then 0 garbled_response))
            sample_messages None (7/10) sample_world) = Inl (ValueError ''Expecting value'')
   \<and> str_of ((sample_env always_raises)\<lparr>py_str := digit_limit_str\<rparr>) huge_messages
        = Inl (ValueError ''Exceeds the limit (4300 digits) for integer string conversion'')
   \<and> sent (snd (call_openrouter_api sample_config
        ((sample_env always_raises)\<lparr>py_str := digit_limit_str\<rparr>) huge_messages None (7/10)
        sample_world)) = []"
  using call_openrouter_api_reraises [of "sample_env always_raises" sample_messages sample_world
      sample_config None "7/10" connection_reset]
    call_openrouter_api_reraises [of "sample_env (fails_then 0 garbled_response)" sample_messages
      sample_world sample_config None "7/10" "ValueError ''Expecting value''"]
    call_openrouter_api_reraises [of "(sample_env always_raises)\<lparr>py_str := digit_limit_str\<rparr>"
      huge_messages sample_world sample_config None "7/10"
      "ValueError ''Exceeds the limit (4300 digits) for integer string conversion''"]
  by (simp add: garbled_response_def str_of_huge_messages)

text \<open>
  C10. With the empty string as the model argument, the \<^verbatim>\<open>model\<close> field of the request
  body is the configured default model, for \<open>call_openrouter_api\<close> and for
  \<open>get_chat_completion\<close>.
\<close>

theorem empty_model_selects_default:
  "model (json_payload (make_request cfg msgs (Some '''') temp)) = default_model cfg
   \<and> (\<forall>s. str_of E msgs = Inr s
        \<longrightarrow> model (json_payload (last (sent (snd (call_openrouter_api cfg E msgs (Some '''') temp w)))))
              = default_model cfg
          \<and> (\<exists>r. get_chat_completion cfg E msgs (Some '''') temp w = Some r
                 \<and> model (json_payload (last (sent (snd r)))) = default_model cfg))
   \<and> (\<forall>req \<in> set (drop (length (sent w))
                     (sent (snd (call_openrouter_api cfg E msgs (Some '''') temp w)))).
         model (json_payload req) = default_model cfg)"
  by (simp add: call_openrouter_api_sent get_chat_completion_one_attempt body_sent model_or_def
           split: sum.splits)

text \<open>C10 at the sample configuration, whose default model is \<^verbatim>\<open>deepseek/deepseek-chat\<close>.\<close>

theorem empty_model_selects_default_witness:
  "str_of (sample_env always_raises) sample_messages = Inr ''<object>''
   \<and> model (json_payload (last (sent (snd (call_openrouter_api sample_config
        (sample_env always_raises) sample_messages (Some '''') (7/10) sample_world)))))
      = ''deepseek/deepseek-chat''"
  using empty_model_selects_default [of sample_config sample_messages "7/10"
      "sample_env always_raises" sample_world]
  by (simp add: sample_config_def)

end
